theory Spec2Isabelle
  imports Main "HOL-Library.Word"
begin

section \<open>Go values of the package govee\<close>

text \<open>
  The package is one file, \<^verbatim>\<open>govee.go\<close>: the struct \<^verbatim>\<open>Version\<close>, the struct
  \<^verbatim>\<open>VersionConfig\<close>, the constructor \<^verbatim>\<open>NewVersion\<close> and the accessor methods.
  A Go \<^verbatim>\<open>string\<close> is a sequence of bytes, here a \<^typ>\<open>string\<close>. A Go \<^verbatim>\<open>error\<close> is an
  interface value; \<^verbatim>\<open>nil\<close> is \<^term>\<open>None\<close> and the error values that the imported
  packages build are the constructors below.
\<close>

datatype error =
    New string                                \<comment> \<open>\<^verbatim>\<open>errors.New(text)\<close>\<close>
  | Errorf string string                      \<comment> \<open>\<^verbatim>\<open>fmt.Errorf(format, operand)\<close>\<close>
  | NumError string string error              \<comment> \<open>\<^verbatim>\<open>&strconv.NumError{Func, Num, Err}\<close>\<close>
  | ParseError string string string string string
      \<comment> \<open>\<^verbatim>\<open>&time.ParseError{Layout, Value, LayoutElem, ValueElem, Message}\<close>\<close>

text \<open>A run-time panic of an index expression: the index and the length.\<close>

datatype panic = IndexOutOfRange nat nat

subsection \<open>The types of \<^verbatim>\<open>github.com/blang/semver\<close>\<close>

text \<open>
  Modelled from the spec: the package \<^verbatim>\<open>github.com/blang/semver\<close> is imported by
  \<^verbatim>\<open>govee.go\<close> and is not part of the repository. Its exported struct types
  \<^verbatim>\<open>PRVersion\<close> and \<^verbatim>\<open>Version\<close> are the "parsed semantic version (major, minor,
  patch: non-negative integers, pre-release: ordered sequence of identifier components)"
  of the spec; the numbers are \<^verbatim>\<open>uint64\<close>.
\<close>

record PRVersion =
  VersionStr :: string
  VersionNum :: "64 word"
  IsNum :: bool

record semver_Version =
  Major :: "64 word"
  Minor :: "64 word"
  Patch :: "64 word"
  Pre :: "PRVersion list"
  Build :: "string list"

definition semver_Version_zero :: semver_Version where
  "semver_Version_zero = \<lparr>Major = 0, Minor = 0, Patch = 0, Pre = [], Build = []\<rparr>"

subsection \<open>The structs of \<^verbatim>\<open>govee.go\<close>\<close>

text \<open>
  \<^verbatim>\<open>time.Time\<close> belongs to the Go standard library; the record takes it as the type
  parameter \<^typ>\<open>'t\<close>.
\<close>

record 't Version =
  semver :: semver_Version
  githash :: string
  gitbranch :: string
  gituser :: string
  os :: string
  arch :: string
  compiler :: string
  release :: string
  timestamp :: 't
  warnings :: "string list"
  err :: "error option"

record VersionConfig =
  VersionString :: string
  GitHash :: string
  GitBranch :: string
  GitUser :: string
  OS :: string
  Arch :: string
  Compiler :: string
  Release :: string
  TStamp :: string

text \<open>The composite literal \<^verbatim>\<open>Version{}\<close>: every field at its zero value.\<close>

definition Version_zero :: "'t \<Rightarrow> 't Version" where
  "Version_zero timeZero =
     \<lparr>semver = semver_Version_zero, githash = [], gitbranch = [], gituser = [], os = [],
      arch = [], compiler = [], release = [], timestamp = timeZero, warnings = [],
      err = None\<rparr>"

section \<open>Formatting\<close>

text \<open>
  \<^verbatim>\<open>strconv.FormatUint(n, 10)\<close>: the decimal digits of \<open>n\<close>, most significant first,
  \<^verbatim>\<open>"0"\<close> for zero.
\<close>

definition digit_char :: "nat \<Rightarrow> char" where
  "digit_char d = char_of (48 + d)"

function FormatUint :: "nat \<Rightarrow> string" where
  "FormatUint n = (if n < 10 then [digit_char n] else FormatUint (n div 10) @ [digit_char (n mod 10)])"
  by pat_completeness auto
termination
  by (relation "measure id") auto

declare FormatUint.simps [simp del]

text \<open>\<^verbatim>\<open>func (v PRVersion) String() string\<close> of the semver package.\<close>

definition PRVersion_String :: "PRVersion \<Rightarrow> string" where
  "PRVersion_String p = (if IsNum p then FormatUint (unat (VersionNum p)) else VersionStr p)"

text \<open>
  The verbs \<^verbatim>\<open>%v\<close> and \<^verbatim>\<open>%+v\<close> of package \<^verbatim>\<open>fmt\<close> of the Go standard library, at
  the operands that \<^verbatim>\<open>govee.go\<close> passes: a \<^verbatim>\<open>PRVersion\<close> and a slice of them. An operand
  with a \<^verbatim>\<open>String()\<close> method is printed through it. A slice is printed, in the words of
  the package's documentation, as \<^verbatim>\<open>[elem0 elem1 ...]\<close>: an opening bracket, the elements
  in order with one space before every element but the first, and a closing bracket. The
  test \<^verbatim>\<open>TestVersionWarnings\<close> of the repository expects \<^verbatim>\<open>[2-ga1b2c3d]\<close> for one
  identifier.
\<close>

fun printValue_elems :: "PRVersion list \<Rightarrow> string" where
  "printValue_elems [] = []"
| "printValue_elems [p] = PRVersion_String p"
| "printValue_elems (p # q # ps) = PRVersion_String p @ '' '' @ printValue_elems (q # ps)"

definition printValue_slice :: "PRVersion list \<Rightarrow> string" where
  "printValue_slice ps = ''['' @ printValue_elems ps @ '']''"

section \<open>The parser of the semver package\<close>

text \<open>
  Modelled from the spec: \<^verbatim>\<open>semver.Make\<close> of \<^verbatim>\<open>github.com/blang/semver\<close>, the
  function that \<^verbatim>\<open>NewVersion\<close> calls on the version string, is not part of the
  repository. The spec: "Parse the version string field as a semantic version
  (major.minor.patch, optional pre-release identifier sequence, optional build-metadata,
  per the standard semantic-versioning grammar)". The definitions follow the library's
  \<^verbatim>\<open>Parse\<close>, of which \<^verbatim>\<open>Make\<close> is an alias, with the functions of \<^verbatim>\<open>strings\<close> and
  \<^verbatim>\<open>strconv\<close> that it uses, at the arguments it passes them (the separator is one byte,
  the base is 10 and the size is 64 bits).
\<close>

definition numbers :: string where
  "numbers = ''0123456789''"

definition alphas :: string where
  "alphas = ''abcdefghijklmnopqrstuvwxyzABCDEFGHIJKLMNOPQRSTUVWXYZ-''"

definition alphanum :: string where
  "alphanum = alphas @ numbers"

definition containsOnly :: "string \<Rightarrow> string \<Rightarrow> bool" where
  "containsOnly s cs = list_all (\<lambda>c. c \<in> set cs) s"

definition hasLeadingZeroes :: "string \<Rightarrow> bool" where
  "hasLeadingZeroes s = (length s > 1 \<and> s ! 0 = CHR ''0'')"

text \<open>\<^verbatim>\<open>strings.IndexRune\<close> at an ASCII rune: \<^term>\<open>None\<close> is Go's \<open>-1\<close>.\<close>

fun strings_IndexRune :: "string \<Rightarrow> char \<Rightarrow> nat option" where
  "strings_IndexRune [] r = None"
| "strings_IndexRune (c # cs) r =
     (if c = r then Some 0 else map_option Suc (strings_IndexRune cs r))"

text \<open>
  The loop of \<^verbatim>\<open>strings.genSplit\<close>: cut at the separator while cuts are left, the
  rest is the last piece.
\<close>

fun genSplit :: "string \<Rightarrow> char \<Rightarrow> nat \<Rightarrow> string list" where
  "genSplit s sep 0 = [s]"
| "genSplit s sep (Suc n) =
     (case strings_IndexRune s sep of
        None \<Rightarrow> [s]
      | Some m \<Rightarrow> take m s # genSplit (drop (Suc m) s) sep n)"

definition strings_SplitN :: "string \<Rightarrow> char \<Rightarrow> nat \<Rightarrow> string list" where
  "strings_SplitN s sep n = (if n = 0 then [] else genSplit s sep (n - 1))"

definition strings_Split :: "string \<Rightarrow> char \<Rightarrow> string list" where
  "strings_Split s sep = genSplit s sep (length (filter (\<lambda>c. c = sep) s))"

text \<open>
  \<^verbatim>\<open>strconv.ParseUint(s, 10, 64)\<close>: the loop over the bytes of \<open>s\<close> with the running
  value \<open>n\<close>, which stops at a byte that is no digit and at a value beyond 64 bits.
\<close>

definition ErrSyntax :: error where
  "ErrSyntax = New ''invalid syntax''"

definition ErrRange :: error where
  "ErrRange = New ''value out of range''"

definition cutoff :: nat where
  "cutoff = (2 ^ 64 - 1) div 10 + 1"

fun ParseUint_loop :: "string \<Rightarrow> nat \<Rightarrow> string \<Rightarrow> error + nat" where
  "ParseUint_loop s0 n [] = Inr n"
| "ParseUint_loop s0 n (c # cs) =
     (if \<not> (48 \<le> (of_char c :: nat) \<and> (of_char c :: nat) \<le> 57)
      then Inl (NumError ''ParseUint'' s0 ErrSyntax)
      else if n \<ge> cutoff then Inl (NumError ''ParseUint'' s0 ErrRange)
      else (let n1 = n * 10 + (of_char c - 48)
            in if n1 \<ge> 2 ^ 64 then Inl (NumError ''ParseUint'' s0 ErrRange)
               else ParseUint_loop s0 n1 cs))"

definition strconv_ParseUint :: "string \<Rightarrow> error + 64 word" where
  "strconv_ParseUint s =
     (if s = [] then Inl (NumError ''ParseUint'' s ErrSyntax)
      else case ParseUint_loop s 0 s of
             Inl e \<Rightarrow> Inl e
           | Inr n \<Rightarrow> Inr (of_nat n))"

definition NewPRVersion :: "string \<Rightarrow> error + PRVersion" where
  "NewPRVersion s =
     (if length s = 0 then Inl (New ''Prerelease is empty'')
      else if containsOnly s numbers then
        (if hasLeadingZeroes s
         then Inl (Errorf ''Numeric PreRelease version must not contain leading zeroes %q'' s)
         else case strconv_ParseUint s of
                Inl e \<Rightarrow> Inl e
              | Inr num \<Rightarrow> Inr \<lparr>VersionStr = [], VersionNum = num, IsNum = True\<rparr>)
      else if containsOnly s alphanum
      then Inr \<lparr>VersionStr = s, VersionNum = 0, IsNum = False\<rparr>
      else Inl (Errorf ''Invalid character(s) found in prerelease %q'' s))"

text \<open>The two loops at the end of \<^verbatim>\<open>Parse\<close>: the first error ends the loop.\<close>

fun parse_prerelease :: "string list \<Rightarrow> error + PRVersion list" where
  "parse_prerelease [] = Inr []"
| "parse_prerelease (prstr # rest) =
     (case NewPRVersion prstr of
        Inl e \<Rightarrow> Inl e
      | Inr parsedPR \<Rightarrow>
          (case parse_prerelease rest of
             Inl e \<Rightarrow> Inl e
           | Inr prs \<Rightarrow> Inr (parsedPR # prs)))"

fun parse_build :: "string list \<Rightarrow> error + string list" where
  "parse_build [] = Inr []"
| "parse_build (str # rest) =
     (if length str = 0 then Inl (New ''Build meta data is empty'')
      else if \<not> containsOnly str alphanum
      then Inl (Errorf ''Invalid character(s) found in build meta data %q'' str)
      else (case parse_build rest of
              Inl e \<Rightarrow> Inl e
            | Inr strs \<Rightarrow> Inr (str # strs)))"

definition semver_Parse :: "string \<Rightarrow> error + semver_Version" where
  "semver_Parse s =
     (if length s = 0 then Inl (New ''Version string empty'')
      else
        (let parts = strings_SplitN s (CHR ''.'') 3
         in if length parts \<noteq> 3 then Inl (New ''No Major.Minor.Patch elements found'')
            else if \<not> containsOnly (parts ! 0) numbers
            then Inl (Errorf ''Invalid character(s) found in major number %q'' (parts ! 0))
            else if hasLeadingZeroes (parts ! 0)
            then Inl (Errorf ''Major number must not contain leading zeroes %q'' (parts ! 0))
            else
              (case strconv_ParseUint (parts ! 0) of
                 Inl e \<Rightarrow> Inl e
               | Inr major \<Rightarrow>
                   if \<not> containsOnly (parts ! 1) numbers
                   then Inl (Errorf ''Invalid character(s) found in minor number %q'' (parts ! 1))
                   else if hasLeadingZeroes (parts ! 1)
                   then Inl (Errorf ''Minor number must not contain leading zeroes %q'' (parts ! 1))
                   else
                     (case strconv_ParseUint (parts ! 1) of
                        Inl e \<Rightarrow> Inl e
                      | Inr minor \<Rightarrow>
                          (let patchStr = parts ! 2;
                               (build, patchStr) =
                                 (case strings_IndexRune patchStr (CHR ''+'') of
                                    None \<Rightarrow> ([], patchStr)
                                  | Some buildIndex \<Rightarrow>
                                      (strings_Split (drop (buildIndex + 1) patchStr) (CHR ''.''),
                                       take buildIndex patchStr));
                               (prerelease, patchStr) =
                                 (case strings_IndexRune patchStr (CHR ''-'') of
                                    None \<Rightarrow> ([], patchStr)
                                  | Some preIndex \<Rightarrow>
                                      (strings_Split (drop (preIndex + 1) patchStr) (CHR ''.''),
                                       take preIndex patchStr))
                           in if \<not> containsOnly patchStr numbers
                              then Inl (Errorf ''Invalid character(s) found in patch number %q'' patchStr)
                              else if hasLeadingZeroes patchStr
                              then Inl (Errorf ''Patch number must not contain leading zeroes %q'' patchStr)
                              else
                                (case strconv_ParseUint patchStr of
                                   Inl e \<Rightarrow> Inl e
                                 | Inr patch \<Rightarrow>
                                     (case parse_prerelease prerelease of
                                        Inl e \<Rightarrow> Inl e
                                      | Inr pre \<Rightarrow>
                                          (case parse_build build of
                                             Inl e \<Rightarrow> Inl e
                                           | Inr bld \<Rightarrow>
                                               Inr \<lparr>Major = major, Minor = minor, Patch = patch,
                                                    Pre = pre, Build = bld\<rparr>))))))))"

definition semver_Make :: "string \<Rightarrow> error + semver_Version" where
  "semver_Make s = semver_Parse s"

section \<open>The constructor\<close>

text \<open>The layout constant \<^verbatim>\<open>time.UnixDate\<close>.\<close>

definition UnixDate :: string where
  "UnixDate = ''Mon Jan _2 15:04:05 MST 2006''"

text \<open>
  \<^verbatim>\<open>fmt.Sprintf\<close> at the two format strings of \<^verbatim>\<open>NewVersion\<close>; a double quote is
  the character \<^verbatim>\<open>0x22\<close>.
\<close>

definition pre_release_warning :: "PRVersion list \<Rightarrow> string" where
  "pre_release_warning ps =
     ''This version is tagged as a pre-release '' @ [CHR 0x22] @ printValue_slice ps
       @ [CHR 0x22] @ ''. Please don't use in production.''"

definition release_warning :: "string \<Rightarrow> string" where
  "release_warning r =
     ''This version is tagged as release '' @ [CHR 0x22] @ r
       @ [CHR 0x22] @ ''. Please don't use in production.''"

text \<open>
  \<^verbatim>\<open>func NewVersion(c *VersionConfig) (Version, error)\<close>. The two imported functions it
  calls, \<^verbatim>\<open>semver.Make\<close> and \<^verbatim>\<open>time.Parse\<close>, and the zero value of \<^verbatim>\<open>time.Time\<close>
  are parameters. Both results of the Go function are returned: the record and the error.
\<close>

definition NewVersion ::
  "(string \<Rightarrow> error + semver_Version) \<Rightarrow> (string \<Rightarrow> string \<Rightarrow> error + 't) \<Rightarrow> 't
     \<Rightarrow> VersionConfig \<Rightarrow> 't Version \<times> error option" where
  "NewVersion semverMake timeParse timeZero c =
     (let v = Version_zero timeZero;
          v = v\<lparr>githash := GitHash c\<rparr>;
          v = v\<lparr>gitbranch := GitBranch c\<rparr>;
          v = v\<lparr>gituser := GitUser c\<rparr>;
          v = v\<lparr>os := OS c\<rparr>;
          v = v\<lparr>arch := Arch c\<rparr>;
          v = v\<lparr>compiler := Compiler c\<rparr>;
          v = v\<lparr>release := Release c\<rparr>
      in case semverMake (VersionString c) of
           Inl e \<Rightarrow> (Version_zero timeZero, Some e)
         | Inr sv \<Rightarrow>
             (let v = v\<lparr>semver := sv\<rparr>
              in case timeParse UnixDate (TStamp c) of
                   Inl e \<Rightarrow> (Version_zero timeZero, Some e)
                 | Inr t \<Rightarrow>
                     (let v = v\<lparr>timestamp := t\<rparr>;
                          v = (if length (Pre (semver v)) > 0
                               then v\<lparr>warnings := warnings v @ [pre_release_warning (Pre (semver v))]\<rparr>
                               else v);
                          v = (if release v \<noteq> ''production'' \<and> release v \<noteq> ''prod''
                               then v\<lparr>warnings := warnings v @ [release_warning (release v)]\<rparr>
                               else v)
                      in (v, None))))"

section \<open>The accessors\<close>

text \<open>
  \<^verbatim>\<open>int(x)\<close> of a \<^verbatim>\<open>uint64\<close>: Go's \<^verbatim>\<open>int\<close> has 64 bits on the \<^verbatim>\<open>amd64\<close> target of
  the repository's tests and build script, and the conversion keeps the bits, read in
  two's complement.
\<close>

definition Version_Major :: "'t Version \<Rightarrow> int" where
  "Version_Major v = sint (Major (semver v))"

definition Version_Minor :: "'t Version \<Rightarrow> int" where
  "Version_Minor v = sint (Minor (semver v))"

definition Version_Patch :: "'t Version \<Rightarrow> int" where
  "Version_Patch v = sint (Patch (semver v))"

text \<open>
  \<^verbatim>\<open>fmt.Sprintf("%v", v.semver.Pre[0])\<close>: the index expression panics on an empty
  slice.
\<close>

definition Version_Pre :: "'t Version \<Rightarrow> panic + string" where
  "Version_Pre v =
     (case Pre (semver v) of
        [] \<Rightarrow> Inl (IndexOutOfRange 0 0)
      | p # _ \<Rightarrow> Inr (PRVersion_String p))"

definition Version_Warnings :: "'t Version \<Rightarrow> string list" where
  "Version_Warnings v = warnings v"

definition Version_Err :: "'t Version \<Rightarrow> error option" where
  "Version_Err v = err v"

definition Version_GitHash :: "'t Version \<Rightarrow> string" where
  "Version_GitHash v = githash v"

definition Version_GitBranch :: "'t Version \<Rightarrow> string" where
  "Version_GitBranch v = gitbranch v"

definition Version_GitUser :: "'t Version \<Rightarrow> string" where
  "Version_GitUser v = gituser v"

definition Version_OS :: "'t Version \<Rightarrow> string" where
  "Version_OS v = os v"

definition Version_Arch :: "'t Version \<Rightarrow> string" where
  "Version_Arch v = arch v"

definition Version_Release :: "'t Version \<Rightarrow> string" where
  "Version_Release v = release v"

definition Version_Compiler :: "'t Version \<Rightarrow> string" where
  "Version_Compiler v = compiler v"

section \<open>The configurations of the repository's tests\<close>

text \<open>
  The test file of the package builds its records from these two configurations
  (\<^verbatim>\<open>TestNewVersion\<close> and \<^verbatim>\<open>TestVersionWarnings\<close>); the theorems below are evaluated
  at them.
\<close>

definition TestNewVersion_vconf :: VersionConfig where
  "TestNewVersion_vconf =
     \<lparr>VersionString = ''1.2.3'', GitHash = ''1234567890abcdef'', GitBranch = ''testing'',
      GitUser = ''Jane Doe'', OS = ''linux'', Arch = ''amd64'', Compiler = ''go1.11.1'',
      Release = ''prod'', TStamp = ''Thu Feb 14 15:04:05 SAST 2019''\<rparr>"

definition TestVersionWarnings_vconf :: VersionConfig where
  "TestVersionWarnings_vconf =
     \<lparr>VersionString = ''1.2.3-2-ga1b2c3d'', GitHash = ''1234567890abcdef'',
      GitBranch = ''testing'', GitUser = ''Jane Doe'', OS = ''linux'', Arch = ''amd64'',
      Compiler = ''go1.11.1'', Release = ''test'', TStamp = ''Thu Feb 14 15:04:05 SAST 2019''\<rparr>"

text \<open>
  \<^verbatim>\<open>time.Parse\<close> is not modelled: the constructor takes it as a parameter. For the
  evaluation of the theorems at concrete configurations the following instance records
  what \<^verbatim>\<open>time.Parse(time.UnixDate, value)\<close> returns at the two values that are used:
  the timestamp of the repository's tests, which it accepts (the tests fail otherwise),
  and the empty string, which it rejects at the first element of the layout with
  \<^verbatim>\<open>&ParseError{Layout: UnixDate, Value: "", LayoutElem: "Mon", ValueElem: "", Message: ""}\<close>.
  A time is one of two tokens, the zero value \<^verbatim>\<open>time.Time{}\<close> and the time of the tests'
  timestamp. No theorem evaluates the instance at another layout or value, and the
  definition says nothing about its result there.
\<close>

datatype test_Time = Time_zero | Time_of_tests

definition test_time_Parse :: "string \<Rightarrow> string \<Rightarrow> error + test_Time" where
  "test_time_Parse layout val =
     (if layout = UnixDate \<and> val = ''Thu Feb 14 15:04:05 SAST 2019''
      then Inr Time_of_tests
      else if layout = UnixDate \<and> val = []
      then Inl (ParseError UnixDate [] ''Mon'' [] [])
      else undefined)"

section \<open>Version strings of the form X.Y.Z\<close>

text \<open>
  The numeric identifiers of the semantic-versioning grammar: a non-empty string of digits
  with no leading zero, unless it is \<^verbatim>\<open>"0"\<close> itself; and the number that a string of
  digits writes in base ten.
\<close>

definition numeric_identifier :: "string \<Rightarrow> bool" where
  "numeric_identifier s = (s \<noteq> [] \<and> containsOnly s numbers \<and> \<not> hasLeadingZeroes s)"

definition decimal :: "string \<Rightarrow> nat" where
  "decimal s = foldl (\<lambda>n c. n * 10 + (of_char c - 48)) 0 s"

section \<open>The grammar of semantic versions\<close>












section \<open>The warnings in memory\<close>

text \<open>
  The field \<^verbatim>\<open>warnings\<close> of \<^verbatim>\<open>Version\<close> is a slice of strings. A Go slice value is three
  words: a pointer into a backing array, a length and a capacity. Copying the struct, as
  every call of a method with a value receiver and every \<^verbatim>\<open>return v\<close> does, copies the
  three words and not the array. The slices of this package all begin at the start of
  their array, so the pointer is the address of the array, absent for the nil slice.
  The memory holds the backing arrays by address; strings are values and are never
  changed in place.
\<close>

record slice =
  slice_array :: "nat option"
  slice_len :: nat
  slice_cap :: nat

record memory =
  mem_arrays :: "nat \<Rightarrow> string list"
  mem_next :: nat

text \<open>
  The nil slice, the zero value of the field in \<^verbatim>\<open>Version{}\<close>, and the elements that a
  slice shows: the first \<^verbatim>\<open>len\<close> elements of its array.
\<close>

definition nil_slice :: slice where
  "nil_slice = \<lparr>slice_array = None, slice_len = 0, slice_cap = 0\<rparr>"

definition slice_elems :: "memory \<Rightarrow> slice \<Rightarrow> string list" where
  "slice_elems m s =
     (case slice_array s of
        None \<Rightarrow> []
      | Some a \<Rightarrow> take (slice_len s) (mem_arrays m a))"

text \<open>
  \<^verbatim>\<open>append(s, x)\<close>: with room left in the array the element is stored in place, otherwise
  a new array is allocated, of capacity 1 for the nil slice and of twice the capacity
  otherwise, and the elements are copied to it. These are the growth steps of the Go
  runtime at the capacities that \<^verbatim>\<open>NewVersion\<close> reaches, 0 and 1.
\<close>

definition append1 :: "slice \<Rightarrow> string \<Rightarrow> memory \<Rightarrow> slice \<times> memory" where
  "append1 s x m =
     (case slice_array s of
        Some a \<Rightarrow>
          if slice_len s < slice_cap s
          then (s\<lparr>slice_len := slice_len s + 1\<rparr>,
                m\<lparr>mem_arrays := (mem_arrays m)(a := (mem_arrays m a)[slice_len s := x])\<rparr>)
          else (\<lparr>slice_array = Some (mem_next m), slice_len = slice_len s + 1,
                 slice_cap = 2 * slice_cap s\<rparr>,
                m\<lparr>mem_arrays := (mem_arrays m)
                     (mem_next m := take (slice_len s) (mem_arrays m a) @ [x]
                        @ replicate (2 * slice_cap s - slice_len s - 1) []),
                  mem_next := mem_next m + 1\<rparr>)
      | None \<Rightarrow>
          (\<lparr>slice_array = Some (mem_next m), slice_len = 1, slice_cap = 1\<rparr>,
           m\<lparr>mem_arrays := (mem_arrays m)(mem_next m := [x]), mem_next := mem_next m + 1\<rparr>))"

text \<open>
  The assignment \<^verbatim>\<open>s[i] = x\<close>, as a caller of the package may write it on a slice that
  it holds: it stores into the backing array, and panics for an index beyond the length.
\<close>

definition index_assign :: "slice \<Rightarrow> nat \<Rightarrow> string \<Rightarrow> memory \<Rightarrow> panic + memory" where
  "index_assign s i x m =
     (if i < slice_len s
      then (case slice_array s of
              Some a \<Rightarrow> Inr (m\<lparr>mem_arrays := (mem_arrays m)(a := (mem_arrays m a)[i := x])\<rparr>)
            | None \<Rightarrow> Inl (IndexOutOfRange i (slice_len s)))
      else Inl (IndexOutOfRange i (slice_len s)))"

text \<open>
  The record as it lies in memory: the fields of \<^verbatim>\<open>Version\<close>, with the three words of
  the slice for \<^verbatim>\<open>warnings\<close>. The constructor executes
  \<^verbatim>\<open>v.warnings = append(v.warnings, warning)\<close> once for each warning, in the order of the
  list that \<^term>\<open>NewVersion\<close> computes, starting from the nil slice of \<^verbatim>\<open>Version{}\<close>; on
  failure it returns \<^verbatim>\<open>Version{}\<close> and has appended nothing.
\<close>

record 't Version_memory =
  value_fields :: "'t Version"
  warnings_slice :: slice

definition NewVersion_memory ::
  "(string \<Rightarrow> error + semver_Version) \<Rightarrow> (string \<Rightarrow> string \<Rightarrow> error + 't) \<Rightarrow> 't
     \<Rightarrow> VersionConfig \<Rightarrow> memory \<Rightarrow> 't Version_memory \<times> error option \<times> memory" where
  "NewVersion_memory semverMake timeParse timeZero c m =
     (case NewVersion semverMake timeParse timeZero c of
        (v, e) \<Rightarrow>
          (case fold (\<lambda>warning (s, m). append1 s warning m) (warnings v) (nil_slice, m) of
             (s, m') \<Rightarrow> (\<lparr>value_fields = v, warnings_slice = s\<rparr>, e, m')))"

text \<open>
  \<^verbatim>\<open>func (v Version) Warnings() []string { return v.warnings }\<close>: the caller receives the
  three words of the record's own slice, not a copy of the array.
\<close>

definition Version_Warnings_memory :: "'t Version_memory \<Rightarrow> slice" where
  "Version_Warnings_memory v = warnings_slice v"

text \<open>
  A slice that fits its array, and the memory before anything is allocated.
\<close>

definition slice_in_memory :: "memory \<Rightarrow> slice \<Rightarrow> bool" where
  "slice_in_memory m s =
     (case slice_array s of
        None \<Rightarrow> slice_len s = 0 \<and> slice_cap s = 0
      | Some a \<Rightarrow> slice_len s \<le> slice_cap s \<and> 0 < slice_cap s
                  \<and> length (mem_arrays m a) = slice_cap s)"

definition empty_memory :: memory where
  "empty_memory = \<lparr>mem_arrays = (\<lambda>a. []), mem_next = 0\<rparr>"

section \<open>Lemmas on the constructor\<close>


text \<open>What a successful call returns: every field of the record, from the two parsers' results.\<close>

lemma NewVersion_success:
  assumes "NewVersion mk tp t0 c = (v, None)"
  obtains sv t where "mk (VersionString c) = Inr sv" "tp UnixDate (TStamp c) = Inr t"
    "v = \<lparr>semver = sv, githash = GitHash c, gitbranch = GitBranch c, gituser = GitUser c,
          os = OS c, arch = Arch c, compiler = Compiler c, release = Release c,
          timestamp = t,
          warnings = (if length (Pre sv) > 0 then [pre_release_warning (Pre sv)] else [])
             @ (if Release c \<noteq> ''production'' \<and> Release c \<noteq> ''prod''
                then [release_warning (Release c)] else []),
          err = None\<rparr>"
  using assms
  by (auto simp add: NewVersion_def Version_zero_def Let_def split: sum.splits if_splits)

lemma NewVersion_semver_error:
  "mk (VersionString c) = Inl e \<Longrightarrow> NewVersion mk tp t0 c = (Version_zero t0, Some e)"
  by (simp add: NewVersion_def Let_def)


lemma NewVersion_no_error:
  "mk (VersionString c) = Inr sv \<Longrightarrow> tp UnixDate (TStamp c) = Inr t
     \<Longrightarrow> snd (NewVersion mk tp t0 c) = None"
  by (simp add: NewVersion_def Let_def)

lemma mod_once: "m \<le> (y::int) \<Longrightarrow> y < 2 * m \<Longrightarrow> y mod m = y - m"
proof -
  assume a: "m \<le> y" "y < 2 * m"
  have "y mod m = (y - m) mod m" by (simp only: minus_mod_self2)
  also have "\<dots> = y - m" using a by (intro mod_pos_pos_trivial) simp_all
  finally show ?thesis .
qed

lemma sint64: "sint (w :: 64 word) = (if unat w < 2 ^ 63 then int (unat w) else int (unat w) - 2 ^ 64)"
proof -
  have b: "uint w < 2 ^ 64" "0 \<le> uint w"
    using uint_bounded [of w] by simp_all
  have s: "sint w = take_bit 64 (uint w + 2 ^ 63) - 2 ^ 63"
    by (simp add: sint_uint signed_take_bit_eq_take_bit_shift)
  have u: "int (unat w) = uint w" by simp
  show ?thesis
  proof (cases "unat w < 2 ^ 63")
    case True
    then have "int (unat w) < int (2 ^ 63)" by (simp only: of_nat_less_iff)
    then have "uint w < 2 ^ 63" using u by simp
    then have "take_bit 64 (uint w + 2 ^ 63) = uint w + 2 ^ 63"
      using b by (simp add: take_bit_int_eq_self)
    with True s u show ?thesis by simp
  next
    case False
    then have "int (2 ^ 63) \<le> int (unat w)" by (simp only: of_nat_le_iff not_less)
    then have ge: "2 ^ 63 \<le> uint w" using u by simp
    have "take_bit 64 (uint w + 2 ^ 63) = uint w + 2 ^ 63 - 2 ^ 64"
      unfolding take_bit_eq_mod using b ge by (intro mod_once) simp_all
    then show ?thesis using False s u by simp
  qed
qed

lemma warning_texts_differ: "pre_release_warning ps \<noteq> release_warning r"
  by (simp add: pre_release_warning_def release_warning_def)

text \<open>Evaluation of the parser at the version strings of the tests and of the spec.\<close>

lemma genSplit_numeral:
  "genSplit s sep (numeral k) =
     (case strings_IndexRune s sep of
        None \<Rightarrow> [s]
      | Some m \<Rightarrow> take m s # genSplit (drop (Suc m) s) sep (pred_numeral k))"
  by (simp add: numeral_eq_Suc)

lemmas parse_defs = semver_Make_def semver_Parse_def strings_SplitN_def strings_Split_def
  containsOnly_def numbers_def alphas_def alphanum_def hasLeadingZeroes_def
  strconv_ParseUint_def cutoff_def NewPRVersion_def Let_def genSplit_numeral

lemma semver_Make_1_2_3:
  "semver_Make ''1.2.3'' = Inr \<lparr>Major = 1, Minor = 2, Patch = 3, Pre = [], Build = []\<rparr>"
  by (simp add: parse_defs)

lemma semver_Make_pre:
  "semver_Make ''1.2.3-2-ga1b2c3d'' =
     Inr \<lparr>Major = 1, Minor = 2, Patch = 3,
          Pre = [\<lparr>VersionStr = ''2-ga1b2c3d'', VersionNum = 0, IsNum = False\<rparr>], Build = []\<rparr>"
  by (simp add: parse_defs)


lemma test_time_Parse_ok:
  "test_time_Parse UnixDate ''Thu Feb 14 15:04:05 SAST 2019'' = Inr Time_of_tests"
  by (simp add: test_time_Parse_def)


lemma NewVersion_TestNewVersion:
  "NewVersion semver_Make test_time_Parse Time_zero TestNewVersion_vconf =
     (\<lparr>semver = \<lparr>Major = 1, Minor = 2, Patch = 3, Pre = [], Build = []\<rparr>,
       githash = ''1234567890abcdef'', gitbranch = ''testing'', gituser = ''Jane Doe'',
       os = ''linux'', arch = ''amd64'', compiler = ''go1.11.1'', release = ''prod'',
       timestamp = Time_of_tests, warnings = [], err = None\<rparr>, None)"
  by (simp add: NewVersion_def TestNewVersion_vconf_def semver_Make_1_2_3 test_time_Parse_ok
      Version_zero_def Let_def)

lemma NewVersion_TestVersionWarnings:
  "NewVersion semver_Make test_time_Parse Time_zero TestVersionWarnings_vconf =
     (\<lparr>semver = \<lparr>Major = 1, Minor = 2, Patch = 3,
          Pre = [\<lparr>VersionStr = ''2-ga1b2c3d'', VersionNum = 0, IsNum = False\<rparr>], Build = []\<rparr>,
       githash = ''1234567890abcdef'', gitbranch = ''testing'', gituser = ''Jane Doe'',
       os = ''linux'', arch = ''amd64'', compiler = ''go1.11.1'', release = ''test'',
       timestamp = Time_of_tests,
       warnings = [''This version is tagged as a pre-release '' @ [CHR 0x22] @ ''[2-ga1b2c3d]''
                     @ [CHR 0x22] @ ''. Please don't use in production.'',
                   ''This version is tagged as release '' @ [CHR 0x22] @ ''test''
                     @ [CHR 0x22] @ ''. Please don't use in production.''],
       err = None\<rparr>, None)"
  by (simp add: NewVersion_def TestVersionWarnings_vconf_def semver_Make_pre test_time_Parse_ok
      Version_zero_def Let_def pre_release_warning_def release_warning_def
      printValue_slice_def PRVersion_String_def)

section \<open>Lemmas on the parser\<close>

lemma IndexRune_absent: "r \<notin> set s \<Longrightarrow> strings_IndexRune s r = None"
  by (induction s) auto

lemma IndexRune_first: "r \<notin> set s \<Longrightarrow> strings_IndexRune (s @ r # rest) r = Some (length s)"
  by (induction s) auto

lemma digit_bounds:
  "c \<in> set numbers \<Longrightarrow> 48 \<le> (of_char c :: nat) \<and> (of_char c :: nat) \<le> 57"
  by (auto simp add: numbers_def)

lemma digit_no_punct:
  "c \<in> set numbers \<Longrightarrow> c \<noteq> CHR ''.'' \<and> c \<noteq> CHR ''+'' \<and> c \<noteq> CHR ''-''"
  by (auto simp add: numbers_def)

lemma containsOnly_member: "containsOnly s cs \<Longrightarrow> c \<in> set s \<Longrightarrow> c \<in> set cs"
  by (simp add: containsOnly_def list_all_iff)

lemma digits_no_punct:
  assumes "containsOnly s numbers"
  shows "CHR ''.'' \<notin> set s" "CHR ''+'' \<notin> set s" "CHR ''-'' \<notin> set s"
  using containsOnly_member [OF assms] digit_no_punct by blast+

lemma foldl_step_mono:
  "n \<le> foldl (\<lambda>n c. n * 10 + (of_char c - 48)) (n::nat) cs"
proof (induction cs arbitrary: n)
  case Nil
  show ?case by simp
next
  case (Cons c cs)
  have "n \<le> n * 10 + (of_char c - 48)" by simp
  also have "\<dots> \<le> foldl (\<lambda>n c. n * 10 + (of_char c - 48)) (n * 10 + (of_char c - 48)) cs"
    by (rule Cons.IH)
  finally show ?case by simp
qed

lemma ParseUint_loop_digits:
  assumes "list_all (\<lambda>c. c \<in> set numbers) cs"
    and "foldl (\<lambda>n c. n * 10 + (of_char c - 48)) n cs < 2 ^ 64"
  shows "ParseUint_loop s0 n cs = Inr (foldl (\<lambda>n c. n * 10 + (of_char c - 48)) n cs)"
  using assms
proof (induction cs arbitrary: n)
  case Nil
  show ?case by simp
next
  case (Cons c cs)
  let ?n1 = "n * 10 + (of_char c - 48)"
  have d: "48 \<le> (of_char c :: nat) \<and> (of_char c :: nat) \<le> 57"
    using Cons.prems(1) by (simp add: digit_bounds)
  have le: "?n1 \<le> foldl (\<lambda>n c. n * 10 + (of_char c - 48)) ?n1 cs"
    by (rule foldl_step_mono)
  have n1: "?n1 < 2 ^ 64" using le Cons.prems(2) by simp
  then have c: "n < cutoff" by (simp add: cutoff_def)
  have "ParseUint_loop s0 ?n1 cs = Inr (foldl (\<lambda>n c. n * 10 + (of_char c - 48)) ?n1 cs)"
    using Cons.prems by (intro Cons.IH) simp_all
  then show ?case using d c n1 by (simp add: Let_def)
qed

lemma ParseUint_digits:
  assumes "s \<noteq> []" "containsOnly s numbers" "decimal s < 2 ^ 64"
  shows "strconv_ParseUint s = Inr (of_nat (decimal s))"
  using assms ParseUint_loop_digits [of s 0 s]
  by (simp add: strconv_ParseUint_def containsOnly_def decimal_def)

lemma SplitN_three:
  assumes "CHR ''.'' \<notin> set xs" "CHR ''.'' \<notin> set ys"
  shows "strings_SplitN (xs @ ''.'' @ ys @ ''.'' @ zs) (CHR ''.'') 3 = [xs, ys, zs]"
  using assms
  by (simp add: strings_SplitN_def genSplit_numeral IndexRune_first)

lemma semver_Make_XYZ:
  assumes "numeric_identifier xs" "numeric_identifier ys" "numeric_identifier zs"
    and "decimal xs < 2 ^ 64" "decimal ys < 2 ^ 64" "decimal zs < 2 ^ 64"
  shows "semver_Make (xs @ ''.'' @ ys @ ''.'' @ zs) =
           Inr \<lparr>Major = of_nat (decimal xs), Minor = of_nat (decimal ys),
                Patch = of_nat (decimal zs), Pre = [], Build = []\<rparr>"
proof -
  have x: "xs \<noteq> []" "containsOnly xs numbers" "\<not> hasLeadingZeroes xs"
    and y: "ys \<noteq> []" "containsOnly ys numbers" "\<not> hasLeadingZeroes ys"
    and z: "zs \<noteq> []" "containsOnly zs numbers" "\<not> hasLeadingZeroes zs"
    using assms(1-3) by (simp_all add: numeric_identifier_def)
  have parts: "strings_SplitN (xs @ ''.'' @ ys @ ''.'' @ zs) (CHR ''.'') 3 = [xs, ys, zs]"
    using digits_no_punct(1) [OF x(2)] digits_no_punct(1) [OF y(2)] by (rule SplitN_three)
  have plus: "strings_IndexRune zs (CHR ''+'') = None"
    using digits_no_punct(2) [OF z(2)] by (rule IndexRune_absent)
  have minus: "strings_IndexRune zs (CHR ''-'') = None"
    using digits_no_punct(3) [OF z(2)] by (rule IndexRune_absent)
  have px: "strconv_ParseUint xs = Inr (of_nat (decimal xs))"
    using x assms(4) by (intro ParseUint_digits)
  have py: "strconv_ParseUint ys = Inr (of_nat (decimal ys))"
    using y assms(5) by (intro ParseUint_digits)
  have pz: "strconv_ParseUint zs = Inr (of_nat (decimal zs))"
    using z assms(6) by (intro ParseUint_digits)
  show ?thesis
    unfolding semver_Make_def semver_Parse_def parts
    using x y z by (simp add: plus minus px py pz)
qed


lemma unat_of_nat64: "n < 2 ^ 64 \<Longrightarrow> unat (of_nat n :: 64 word) = n"
  by (simp add: unat_of_nat)

lemma sint_of_nat63: "n < 2 ^ 63 \<Longrightarrow> sint (of_nat n :: 64 word) = int n"
  by (simp add: sint64 unat_of_nat64)

lemma printValue_elems_spaces:
  "ps \<noteq> [] \<Longrightarrow>
     printValue_elems ps = tl (concat (map (\<lambda>p. CHR '' '' # PRVersion_String p) ps))"
  by (induction ps rule: printValue_elems.induct) simp_all

lemma semver_Make_alpha_1:
  "semver_Make ''1.2.3-alpha.1'' =
     Inr \<lparr>Major = 1, Minor = 2, Patch = 3,
          Pre = [\<lparr>VersionStr = ''alpha'', VersionNum = 0, IsNum = False\<rparr>,
                 \<lparr>VersionStr = [], VersionNum = 1, IsNum = True\<rparr>], Build = []\<rparr>"
  by (simp add: parse_defs)

lemma semver_Make_2_63:
  "semver_Make ''9223372036854775808.0.0'' =
     Inr \<lparr>Major = 9223372036854775808, Minor = 0, Patch = 0, Pre = [], Build = []\<rparr>"
  by (simp add: parse_defs)

lemma semver_Make_2_64:
  "semver_Make ''18446744073709551616.0.0'' =
     Inl (NumError ''ParseUint'' ''18446744073709551616'' ErrRange)"
  by (simp add: parse_defs)

lemma semver_Make_large:
  "semver_Make ''9223372036854775808.9223372036854775809.18446744073709551615'' =
     Inr \<lparr>Major = 9223372036854775808, Minor = 9223372036854775809,
          Patch = 18446744073709551615, Pre = [], Build = []\<rparr>"
  by (simp add: parse_defs)

lemma FormatUint_1: "FormatUint (Suc 0) = ''1''"
  by (simp add: FormatUint.simps [of "Suc 0"] digit_char_def char_of_def bit_Suc_0_iff)

lemma NewVersion_large:
  "NewVersion semver_Make test_time_Parse Time_zero
     (TestNewVersion_vconf\<lparr>VersionString :=
        ''9223372036854775808.9223372036854775809.18446744073709551615''\<rparr>) =
     (\<lparr>semver = \<lparr>Major = 9223372036854775808, Minor = 9223372036854775809,
          Patch = 18446744073709551615, Pre = [], Build = []\<rparr>,
       githash = ''1234567890abcdef'', gitbranch = ''testing'', gituser = ''Jane Doe'',
       os = ''linux'', arch = ''amd64'', compiler = ''go1.11.1'', release = ''prod'',
       timestamp = Time_of_tests, warnings = [], err = None\<rparr>, None)"
  by (simp add: NewVersion_def TestNewVersion_vconf_def semver_Make_large test_time_Parse_ok
      Version_zero_def Let_def)

lemma NewVersion_alpha_1:
  "NewVersion semver_Make test_time_Parse Time_zero
     (TestNewVersion_vconf\<lparr>VersionString := ''1.2.3-alpha.1''\<rparr>) =
     (\<lparr>semver = \<lparr>Major = 1, Minor = 2, Patch = 3,
          Pre = [\<lparr>VersionStr = ''alpha'', VersionNum = 0, IsNum = False\<rparr>,
                 \<lparr>VersionStr = [], VersionNum = 1, IsNum = True\<rparr>], Build = []\<rparr>,
       githash = ''1234567890abcdef'', gitbranch = ''testing'', gituser = ''Jane Doe'',
       os = ''linux'', arch = ''amd64'', compiler = ''go1.11.1'', release = ''prod'',
       timestamp = Time_of_tests,
       warnings = [''This version is tagged as a pre-release '' @ [CHR 0x22] @ ''[alpha 1]''
                     @ [CHR 0x22] @ ''. Please don't use in production.''],
       err = None\<rparr>, None)"
  by (simp add: NewVersion_def TestNewVersion_vconf_def semver_Make_alpha_1 test_time_Parse_ok
      Version_zero_def Let_def pre_release_warning_def printValue_slice_def
      PRVersion_String_def FormatUint_1)

section \<open>The parser and the grammar\<close>







subsection \<open>ParseUint\<close>




subsection \<open>Identifiers\<close>






subsection \<open>Splitting and joining\<close>












subsection \<open>The parser accepts the grammar\<close>

















section \<open>Lemmas on the memory\<close>

lemma append1_elems:
  assumes "slice_in_memory m s" "append1 s x m = (s', m')"
  shows "slice_in_memory m' s' \<and> slice_elems m' s' = slice_elems m s @ [x]"
proof (cases "slice_array s")
  case None
  with assms show ?thesis
    by (auto simp add: append1_def slice_in_memory_def slice_elems_def)
next
  case (Some a)
  show ?thesis
  proof (cases "slice_len s < slice_cap s")
    case True
    with Some assms show ?thesis
      by (auto simp add: append1_def slice_in_memory_def slice_elems_def
          take_Suc_conv_app_nth)
  next
    case False
    with Some assms show ?thesis
      by (auto simp add: append1_def slice_in_memory_def slice_elems_def)
  qed
qed

lemma fold_append1_elems:
  assumes "slice_in_memory m s"
    "fold (\<lambda>warning (s, m). append1 s warning m) ws (s, m) = (s', m')"
  shows "slice_in_memory m' s' \<and> slice_elems m' s' = slice_elems m s @ ws"
  using assms
proof (induction ws arbitrary: s m)
  case Nil
  then show ?case by simp
next
  case (Cons w ws)
  obtain s1 m1 where a: "append1 s w m = (s1, m1)" by (cases "append1 s w m")
  from append1_elems [OF Cons.prems(1) a]
  have i: "slice_in_memory m1 s1" and e: "slice_elems m1 s1 = slice_elems m s @ [w]"
    by simp_all
  from Cons.prems(2) a
  have "fold (\<lambda>warning (s, m). append1 s warning m) ws (s1, m1) = (s', m')" by simp
  from Cons.IH [OF i this] e show ?case by simp
qed

lemma index_assign_elems:
  assumes "slice_in_memory m s" "i < slice_len s"
  shows "\<exists>m'. index_assign s i x m = Inr m' \<and> slice_elems m' s = (slice_elems m s)[i := x]"
proof (cases "slice_array s")
  case None
  with assms show ?thesis by (simp add: slice_in_memory_def)
next
  case (Some a)
  with assms show ?thesis
    by (simp add: index_assign_def slice_elems_def take_update_swap)
qed

lemma nil_slice_in_memory: "slice_in_memory m nil_slice" "slice_elems m nil_slice = []"
  by (simp_all add: slice_in_memory_def nil_slice_def slice_elems_def)

lemma NewVersion_memory_elems:
  assumes "NewVersion_memory mk tp t0 c m = (vm, e, m')"
  shows "NewVersion mk tp t0 c = (value_fields vm, e)
    \<and> slice_in_memory m' (warnings_slice vm)
    \<and> slice_elems m' (warnings_slice vm) = warnings (value_fields vm)"
proof -
  obtain v e0 where n: "NewVersion mk tp t0 c = (v, e0)" by (cases "NewVersion mk tp t0 c")
  obtain s m1 where f: "fold (\<lambda>warning (s, m). append1 s warning m) (warnings v) (nil_slice, m) = (s, m1)"
    by (cases "fold (\<lambda>warning (s, m). append1 s warning m) (warnings v) (nil_slice, m)")
  from assms n f have vm: "vm = \<lparr>value_fields = v, warnings_slice = s\<rparr>" and "e = e0" and "m' = m1"
    by (simp_all add: NewVersion_memory_def)
  with fold_append1_elems [OF nil_slice_in_memory(1) f] n show ?thesis
    by (simp add: nil_slice_in_memory(2))
qed

lemma slice_elems_length: "slice_in_memory m s \<Longrightarrow> length (slice_elems m s) = slice_len s"
  by (auto simp add: slice_in_memory_def slice_elems_def split: option.splits)

lemma NewVersion_memory_TestVersionWarnings:
  "NewVersion_memory semver_Make test_time_Parse Time_zero TestVersionWarnings_vconf empty_memory =
     (\<lparr>value_fields = fst (NewVersion semver_Make test_time_Parse Time_zero TestVersionWarnings_vconf),
       warnings_slice = \<lparr>slice_array = Some 1, slice_len = 2, slice_cap = 2\<rparr>\<rparr>,
      None,
      \<lparr>mem_arrays = (\<lambda>a. [])
         (0 := [''This version is tagged as a pre-release '' @ [CHR 0x22] @ ''[2-ga1b2c3d]''
                  @ [CHR 0x22] @ ''. Please don't use in production.''],
          1 := [''This version is tagged as a pre-release '' @ [CHR 0x22] @ ''[2-ga1b2c3d]''
                  @ [CHR 0x22] @ ''. Please don't use in production.'',
                ''This version is tagged as release '' @ [CHR 0x22] @ ''test''
                  @ [CHR 0x22] @ ''. Please don't use in production.'']),
        mem_next = 2\<rparr>)"
  by (simp add: NewVersion_memory_def NewVersion_TestVersionWarnings empty_memory_def
      nil_slice_def append1_def)

section \<open>The claims\<close>


text \<open>
  Claim C9. For every configuration, the record that \<^verbatim>\<open>NewVersion\<close> returns, on success
  and on failure alike, has a nil \<^verbatim>\<open>Err()\<close>: no statement of the constructor assigns the
  field \<^verbatim>\<open>err\<close>, and the error reaches the caller only as the second result.
\<close>

theorem NewVersion_Err_nil: "Version_Err (fst (NewVersion mk tp t0 c)) = None"
  by (simp add: NewVersion_def Version_Err_def Version_zero_def Let_def split: sum.splits)

theorem NewVersion_Err_nil_witness:
  "Version_Err (fst (NewVersion semver_Make test_time_Parse Time_zero TestNewVersion_vconf)) = None
   \<and> Version_Err (fst (NewVersion semver_Make test_time_Parse Time_zero
        (TestNewVersion_vconf\<lparr>VersionString := ''not-a-version''\<rparr>))) = None"
  using NewVersion_Err_nil [of semver_Make test_time_Parse Time_zero TestNewVersion_vconf]
    NewVersion_Err_nil [of semver_Make test_time_Parse Time_zero
      "TestNewVersion_vconf\<lparr>VersionString := ''not-a-version''\<rparr>"]
  by simp

text \<open>
  Claim C8, amended. On every successful construction the seven opaque strings of the
  configuration (git hash, branch, user, OS, arch, compiler, release tag) are what the
  accessors \<^verbatim>\<open>GitHash\<close>, \<^verbatim>\<open>GitBranch\<close>, \<^verbatim>\<open>GitUser\<close>, \<^verbatim>\<open>OS\<close>, \<^verbatim>\<open>Arch\<close>, \<^verbatim>\<open>Compiler\<close>
  and \<^verbatim>\<open>Release\<close> return; these are values of the record and depend on nothing in
  memory. The record is not read-only as a whole: \<^verbatim>\<open>Warnings()\<close> returns the record's
  own slice, whose elements are the warnings, and an assignment by the caller to an
  element of the returned slice, \<^verbatim>\<open>v.Warnings()[i] = x\<close>, replaces the warning at that
  index in what the record's slice shows from then on. As the claim is written, with no
  way to change a constructed record, it fails.
\<close>

theorem NewVersion_copies_fields:
  assumes "NewVersion_memory mk tp t0 c m = (vm, None, m')"
  shows "Version_GitHash (value_fields vm) = GitHash c
    \<and> Version_GitBranch (value_fields vm) = GitBranch c
    \<and> Version_GitUser (value_fields vm) = GitUser c
    \<and> Version_OS (value_fields vm) = OS c
    \<and> Version_Arch (value_fields vm) = Arch c
    \<and> Version_Compiler (value_fields vm) = Compiler c
    \<and> Version_Release (value_fields vm) = Release c
    \<and> NewVersion mk tp t0 c = (value_fields vm, None)
    \<and> slice_elems m' (Version_Warnings_memory vm) = Version_Warnings (value_fields vm)
    \<and> (\<forall>i x. i < length (Version_Warnings (value_fields vm)) \<longrightarrow>
          (\<exists>m''. index_assign (Version_Warnings_memory vm) i x m' = Inr m''
             \<and> slice_elems m'' (Version_Warnings_memory vm)
                 = (Version_Warnings (value_fields vm))[i := x]))"
proof -
  from NewVersion_memory_elems [OF assms]
  have n: "NewVersion mk tp t0 c = (value_fields vm, None)"
    and i: "slice_in_memory m' (warnings_slice vm)"
    and e: "slice_elems m' (warnings_slice vm) = warnings (value_fields vm)"
    by simp_all
  have seven: "Version_GitHash (value_fields vm) = GitHash c
    \<and> Version_GitBranch (value_fields vm) = GitBranch c
    \<and> Version_GitUser (value_fields vm) = GitUser c
    \<and> Version_OS (value_fields vm) = OS c
    \<and> Version_Arch (value_fields vm) = Arch c
    \<and> Version_Compiler (value_fields vm) = Compiler c
    \<and> Version_Release (value_fields vm) = Release c"
    using n
    by (elim NewVersion_success)
      (simp add: Version_GitHash_def Version_GitBranch_def Version_GitUser_def Version_OS_def
        Version_Arch_def Version_Compiler_def Version_Release_def)
  have elems: "slice_elems m' (Version_Warnings_memory vm) = Version_Warnings (value_fields vm)"
    using e by (simp add: Version_Warnings_memory_def Version_Warnings_def)
  have assign:"\<forall>i x. i < length (Version_Warnings (value_fields vm)) \<longrightarrow>
          (\<exists>m''. index_assign (Version_Warnings_memory vm) i x m' = Inr m''
             \<and> slice_elems m'' (Version_Warnings_memory vm)
                 = (Version_Warnings (value_fields vm))[i := x])"
  proof (intro allI impI)
    fix i x
    assume "i < length (Version_Warnings (value_fields vm))"
    then have "i < slice_len (warnings_slice vm)"
      using slice_elems_length [OF i] e by (simp add: Version_Warnings_def)
    from index_assign_elems [OF i this, of x]
    show "\<exists>m''. index_assign (Version_Warnings_memory vm) i x m' = Inr m''
             \<and> slice_elems m'' (Version_Warnings_memory vm)
                 = (Version_Warnings (value_fields vm))[i := x]"
      using e by (simp add: Version_Warnings_memory_def Version_Warnings_def)
  qed
  show ?thesis
    using seven n elems assign by (intro conjI) simp_all
qed

theorem NewVersion_copies_fields_witness:
  "\<exists>vm m' m''.
     NewVersion_memory semver_Make test_time_Parse Time_zero TestVersionWarnings_vconf empty_memory
       = (vm, None, m')
     \<and> Version_GitHash (value_fields vm) = ''1234567890abcdef''
     \<and> Version_GitBranch (value_fields vm) = ''testing''
     \<and> Version_GitUser (value_fields vm) = ''Jane Doe''
     \<and> Version_OS (value_fields vm) = ''linux''
     \<and> Version_Arch (value_fields vm) = ''amd64''
     \<and> Version_Compiler (value_fields vm) = ''go1.11.1''
     \<and> Version_Release (value_fields vm) = ''test''
     \<and> length (slice_elems m' (Version_Warnings_memory vm)) = 2
     \<and> index_assign (Version_Warnings_memory vm) 1 ''x'' m' = Inr m''
     \<and> slice_elems m'' (Version_Warnings_memory vm)
          = (slice_elems m' (Version_Warnings_memory vm))[1 := ''x'']"
proof -
  obtain vm m' where h: "NewVersion_memory semver_Make test_time_Parse Time_zero
      TestVersionWarnings_vconf empty_memory = (vm, None, m')"
    using NewVersion_memory_TestVersionWarnings by simp
  note th = NewVersion_copies_fields [OF h]
  have n: "NewVersion semver_Make test_time_Parse Time_zero TestVersionWarnings_vconf
      = (value_fields vm, None)"
    using th by simp
  have vf: "value_fields vm
      = fst (NewVersion semver_Make test_time_Parse Time_zero TestVersionWarnings_vconf)"
    by (simp add: n)
  have w: "length (Version_Warnings (value_fields vm)) = 2"
    by (simp add: vf NewVersion_TestVersionWarnings Version_Warnings_def)
  have l: "length (slice_elems m' (Version_Warnings_memory vm)) = 2"
    using th w by simp
  have "1 < length (Version_Warnings (value_fields vm))" using w by simp
  with th obtain m'' where a: "index_assign (Version_Warnings_memory vm) 1 ''x'' m' = Inr m''"
    and b: "slice_elems m'' (Version_Warnings_memory vm)
                 = (Version_Warnings (value_fields vm))[1 := ''x'']"
    by blast
  have b': "slice_elems m'' (Version_Warnings_memory vm)
          = (slice_elems m' (Version_Warnings_memory vm))[1 := ''x'']"
    using b th by simp
  have seven: "Version_GitHash (value_fields vm) = ''1234567890abcdef''
     \<and> Version_GitBranch (value_fields vm) = ''testing''
     \<and> Version_GitUser (value_fields vm) = ''Jane Doe''
     \<and> Version_OS (value_fields vm) = ''linux''
     \<and> Version_Arch (value_fields vm) = ''amd64''
     \<and> Version_Compiler (value_fields vm) = ''go1.11.1''
     \<and> Version_Release (value_fields vm) = ''test''"
    using th by (simp add: TestVersionWarnings_vconf_def)
  show ?thesis
    using h seven l a b' by (intro exI [of _ vm] exI [of _ m'] exI [of _ m'']) simp
qed

text \<open>
  The counterexample to claim C8 as written: the record of the configuration of
  \<^verbatim>\<open>TestVersionWarnings\<close> is built in the empty memory; its first warning is the
  pre-release warning; after the caller's \<^verbatim>\<open>v.Warnings()[0] = "x"\<close> the first element of
  the record's slice is \<^verbatim>\<open>"x"\<close>.
\<close>

theorem NewVersion_copies_fields_counterexample:
  "fst (snd (NewVersion_memory semver_Make test_time_Parse Time_zero TestVersionWarnings_vconf
        empty_memory)) = None
   \<and> slice_elems
        (snd (snd (NewVersion_memory semver_Make test_time_Parse Time_zero
           TestVersionWarnings_vconf empty_memory)))
        (Version_Warnings_memory (fst (NewVersion_memory semver_Make test_time_Parse Time_zero
           TestVersionWarnings_vconf empty_memory))) ! 0
       = ''This version is tagged as a pre-release '' @ [CHR 0x22] @ ''[2-ga1b2c3d]''
           @ [CHR 0x22] @ ''. Please don't use in production.''
   \<and> \<not> isl (index_assign
        (Version_Warnings_memory (fst (NewVersion_memory semver_Make test_time_Parse Time_zero
           TestVersionWarnings_vconf empty_memory)))
        0 ''x''
        (snd (snd (NewVersion_memory semver_Make test_time_Parse Time_zero
           TestVersionWarnings_vconf empty_memory))))
   \<and> slice_elems
        (projr (index_assign
           (Version_Warnings_memory (fst (NewVersion_memory semver_Make test_time_Parse
              Time_zero TestVersionWarnings_vconf empty_memory)))
           0 ''x''
           (snd (snd (NewVersion_memory semver_Make test_time_Parse Time_zero
              TestVersionWarnings_vconf empty_memory)))))
        (Version_Warnings_memory (fst (NewVersion_memory semver_Make test_time_Parse Time_zero
           TestVersionWarnings_vconf empty_memory))) ! 0
       = ''x''"
  by (simp add: NewVersion_memory_TestVersionWarnings Version_Warnings_memory_def
      slice_elems_def index_assign_def)




text \<open>
  Claim C3. On every successful construction the warning list is the pre-release
  warning, if the parsed version has a pre-release identifier, followed by the release
  warning, if the release tag is neither \<^verbatim>\<open>"production"\<close> nor \<^verbatim>\<open>"prod"\<close>. Its length is
  the number of the two checks that fire (0, 1 or 2), and a pre-release warning, when
  there is one, is the element at index 0.
\<close>

theorem NewVersion_warnings_order:
  assumes "NewVersion mk tp t0 c = (v, None)"
  shows "Version_Warnings v =
           (if Pre (semver v) \<noteq> [] then [pre_release_warning (Pre (semver v))] else [])
           @ (if Release c \<noteq> ''production'' \<and> Release c \<noteq> ''prod''
              then [release_warning (Release c)] else [])
    \<and> length (Version_Warnings v) =
           (if Pre (semver v) \<noteq> [] then 1 else 0)
           + (if Release c \<noteq> ''production'' \<and> Release c \<noteq> ''prod'' then 1 else 0)
    \<and> (Pre (semver v) \<noteq> [] \<longrightarrow> Version_Warnings v ! 0 = pre_release_warning (Pre (semver v)))
    \<and> mk (VersionString c) = Inr (semver v)"
  using assms by (elim NewVersion_success) (simp add: Version_Warnings_def)

theorem NewVersion_warnings_order_witness:
  "\<exists>v. NewVersion semver_Make test_time_Parse Time_zero TestVersionWarnings_vconf = (v, None)
     \<and> Pre (semver v) \<noteq> []
     \<and> Version_Warnings v =
          [pre_release_warning (Pre (semver v)), release_warning ''test'']
     \<and> length (Version_Warnings v) = 2"
proof -
  obtain v where h: "NewVersion semver_Make test_time_Parse Time_zero TestVersionWarnings_vconf = (v, None)"
    and p: "Pre (semver v) \<noteq> []"
    using NewVersion_TestVersionWarnings by simp
  have r: "Release TestVersionWarnings_vconf = ''test''"
    by (simp add: TestVersionWarnings_vconf_def)
  from NewVersion_warnings_order [OF h] p r
  have "Version_Warnings v = [pre_release_warning (Pre (semver v)), release_warning ''test'']
     \<and> length (Version_Warnings v) = 2"
    by simp
  with h p show ?thesis by blast
qed

text \<open>
  Claim C4. On every successful construction the list of warnings contains the text
  \<^verbatim>\<open>This version is tagged as release "<release>". Please don't use in production.\<close>
  exactly when the release tag of the configuration is neither \<^verbatim>\<open>"production"\<close> nor
  \<^verbatim>\<open>"prod"\<close>; the strings are compared as they are, byte by byte.
\<close>

theorem release_warning_iff:
  assumes "NewVersion mk tp t0 c = (v, None)"
  shows "(''This version is tagged as release '' @ [CHR 0x22] @ Release c @ [CHR 0x22]
            @ ''. Please don't use in production.'' \<in> set (Version_Warnings v))
         = (Release c \<noteq> ''production'' \<and> Release c \<noteq> ''prod'')"
proof -
  have "release_warning (Release c) \<in> set (Version_Warnings v)
         \<longleftrightarrow> (Release c \<noteq> ''production'' \<and> Release c \<noteq> ''prod'')"
    using assms
    by (elim NewVersion_success)
      (auto simp add: Version_Warnings_def warning_texts_differ warning_texts_differ [THEN not_sym])
  then show ?thesis by (simp add: release_warning_def)
qed

theorem release_warning_iff_witness:
  "(\<exists>v. NewVersion semver_Make test_time_Parse Time_zero TestVersionWarnings_vconf = (v, None)
      \<and> ''This version is tagged as release '' @ [CHR 0x22] @ ''test'' @ [CHR 0x22]
            @ ''. Please don't use in production.'' \<in> set (Version_Warnings v))
   \<and> (\<exists>v. NewVersion semver_Make test_time_Parse Time_zero TestNewVersion_vconf = (v, None)
      \<and> ''This version is tagged as release '' @ [CHR 0x22] @ ''prod'' @ [CHR 0x22]
            @ ''. Please don't use in production.'' \<notin> set (Version_Warnings v))"
proof -
  obtain v where h: "NewVersion semver_Make test_time_Parse Time_zero TestVersionWarnings_vconf = (v, None)"
    using NewVersion_TestVersionWarnings by simp
  obtain w where k: "NewVersion semver_Make test_time_Parse Time_zero TestNewVersion_vconf = (w, None)"
    using NewVersion_TestNewVersion by simp
  have r: "Release TestVersionWarnings_vconf = ''test''" "Release TestNewVersion_vconf = ''prod''"
    by (simp_all add: TestVersionWarnings_vconf_def TestNewVersion_vconf_def)
  have a: "''This version is tagged as release '' @ [CHR 0x22] @ ''test'' @ [CHR 0x22]
            @ ''. Please don't use in production.'' \<in> set (Version_Warnings v)"
    using release_warning_iff [OF h] r by simp
  have b: "''This version is tagged as release '' @ [CHR 0x22] @ ''prod'' @ [CHR 0x22]
            @ ''. Please don't use in production.'' \<notin> set (Version_Warnings w)"
    using release_warning_iff [OF k] r by simp
  from h k a b show ?thesis by blast
qed

text \<open>
  Claim C10. \<^verbatim>\<open>Major()\<close>, \<^verbatim>\<open>Minor()\<close> and \<^verbatim>\<open>Patch()\<close> convert the stored \<^verbatim>\<open>uint64\<close> to
  \<^verbatim>\<open>int\<close>. A component of \<open>2^63\<close> or more comes back as the component minus \<open>2^64\<close>,
  a negative number; a smaller component comes back as it is.
\<close>

theorem accessors_wrap:
  "(2 ^ 63 \<le> unat (Major (semver v))
      \<longrightarrow> Version_Major v = int (unat (Major (semver v))) - 2 ^ 64 \<and> Version_Major v < 0)
   \<and> (2 ^ 63 \<le> unat (Minor (semver v))
      \<longrightarrow> Version_Minor v = int (unat (Minor (semver v))) - 2 ^ 64 \<and> Version_Minor v < 0)
   \<and> (2 ^ 63 \<le> unat (Patch (semver v))
      \<longrightarrow> Version_Patch v = int (unat (Patch (semver v))) - 2 ^ 64 \<and> Version_Patch v < 0)
   \<and> (unat (Major (semver v)) < 2 ^ 63 \<longrightarrow> Version_Major v = int (unat (Major (semver v))))
   \<and> (unat (Minor (semver v)) < 2 ^ 63 \<longrightarrow> Version_Minor v = int (unat (Minor (semver v))))
   \<and> (unat (Patch (semver v)) < 2 ^ 63 \<longrightarrow> Version_Patch v = int (unat (Patch (semver v))))"
proof -
  have neg: "2 ^ 63 \<le> unat w \<Longrightarrow> sint w = int (unat w) - 2 ^ 64 \<and> sint w < 0"
    for w :: "64 word"
  proof -
    assume a: "2 ^ 63 \<le> unat w"
    have "int (unat w) < 2 ^ 64" using unsigned_less [of w, where 'a = int] by simp
    with a show ?thesis by (simp add: sint64)
  qed
  have pos: "unat w < 2 ^ 63 \<Longrightarrow> sint w = int (unat w)" for w :: "64 word"
    by (simp add: sint64)
  show ?thesis
    unfolding Version_Major_def Version_Minor_def Version_Patch_def
    using neg pos by blast
qed

theorem accessors_wrap_witness:
  "Version_Major (fst (NewVersion semver_Make test_time_Parse Time_zero
     (TestNewVersion_vconf\<lparr>VersionString :=
        ''9223372036854775808.9223372036854775809.18446744073709551615''\<rparr>)))
     = - 9223372036854775808
   \<and> Version_Minor (fst (NewVersion semver_Make test_time_Parse Time_zero
     (TestNewVersion_vconf\<lparr>VersionString :=
        ''9223372036854775808.9223372036854775809.18446744073709551615''\<rparr>)))
     = - 9223372036854775807
   \<and> Version_Patch (fst (NewVersion semver_Make test_time_Parse Time_zero
     (TestNewVersion_vconf\<lparr>VersionString :=
        ''9223372036854775808.9223372036854775809.18446744073709551615''\<rparr>)))
     = - 1
   \<and> Version_Major (fst (NewVersion semver_Make test_time_Parse Time_zero TestNewVersion_vconf)) = 1
   \<and> Version_Minor (fst (NewVersion semver_Make test_time_Parse Time_zero TestNewVersion_vconf)) = 2
   \<and> Version_Patch (fst (NewVersion semver_Make test_time_Parse Time_zero TestNewVersion_vconf)) = 3"
proof -
  let ?v = "fst (NewVersion semver_Make test_time_Parse Time_zero
     (TestNewVersion_vconf\<lparr>VersionString :=
        ''9223372036854775808.9223372036854775809.18446744073709551615''\<rparr>))"
  let ?w = "fst (NewVersion semver_Make test_time_Parse Time_zero TestNewVersion_vconf)"
  have v: "unat (Major (semver ?v)) = 9223372036854775808"
    "unat (Minor (semver ?v)) = 9223372036854775809"
    "unat (Patch (semver ?v)) = 18446744073709551615"
    by (simp_all add: NewVersion_large)
  have w: "unat (Major (semver ?w)) = 1" "unat (Minor (semver ?w)) = 2"
    "unat (Patch (semver ?w)) = 3"
    by (simp_all add: NewVersion_TestNewVersion)
  show ?thesis
    using accessors_wrap [of ?v] accessors_wrap [of ?w]
    unfolding v w by simp
qed

text \<open>
  Claim C1 says that \<^verbatim>\<open>Pre()\<close> returns normally on every record that \<^verbatim>\<open>NewVersion\<close>
  returns. The code indexes \<^verbatim>\<open>v.semver.Pre[0]\<close> with no check of the length: at the
  configuration of the repository's \<^verbatim>\<open>TestNewVersion\<close> (version \<^verbatim>\<open>"1.2.3"\<close>) the
  construction succeeds and \<^verbatim>\<open>Pre()\<close> panics with an index out of range.
\<close>

theorem Pre_panics_without_pre_release:
  "snd (NewVersion semver_Make test_time_Parse Time_zero TestNewVersion_vconf) = None
   \<and> Version_Pre (fst (NewVersion semver_Make test_time_Parse Time_zero TestNewVersion_vconf))
       = Inl (IndexOutOfRange 0 0)"
  by (simp add: NewVersion_TestNewVersion Version_Pre_def)

text \<open>
  Claim C6, amended. For every version string \<^verbatim>\<open>X.Y.Z\<close> of three numeric identifiers
  whose values are below \<open>2^63\<close>, and a timestamp that \<^verbatim>\<open>time.Parse\<close> accepts, the
  construction succeeds and \<^verbatim>\<open>Major()\<close>, \<^verbatim>\<open>Minor()\<close> and \<^verbatim>\<open>Patch()\<close> return the
  three values. As the claim is written, with no bound on the values, it fails: the
  component \<open>2^63\<close> comes back negative, and a component of \<open>2^64\<close> makes the parser
  reject the string.
\<close>

theorem NewVersion_XYZ:
  assumes "numeric_identifier xs" "numeric_identifier ys" "numeric_identifier zs"
    and "decimal xs < 2 ^ 63" "decimal ys < 2 ^ 63" "decimal zs < 2 ^ 63"
    and "VersionString c = xs @ ''.'' @ ys @ ''.'' @ zs"
    and "tp UnixDate (TStamp c) = Inr t"
  shows "\<exists>v. NewVersion semver_Make tp t0 c = (v, None)
           \<and> Version_Major v = int (decimal xs) \<and> Version_Minor v = int (decimal ys)
           \<and> Version_Patch v = int (decimal zs)"
proof -
  let ?sv = "\<lparr>Major = of_nat (decimal xs), Minor = of_nat (decimal ys),
               Patch = of_nat (decimal zs), Pre = [], Build = []\<rparr> :: semver_Version"
  have lt: "decimal xs < 2 ^ 64" "decimal ys < 2 ^ 64" "decimal zs < 2 ^ 64"
    using assms(4-6) by simp_all
  have mk: "semver_Make (VersionString c) = Inr ?sv"
    unfolding assms(7) using assms(1-3) lt by (rule semver_Make_XYZ)
  have "snd (NewVersion semver_Make tp t0 c) = None"
    using mk assms(8) by (rule NewVersion_no_error)
  then obtain v where v: "NewVersion semver_Make tp t0 c = (v, None)"
    by (cases "NewVersion semver_Make tp t0 c") simp
  then have sv: "semver v = ?sv"
    using mk by (elim NewVersion_success) simp
  have "Version_Major v = int (decimal xs)" "Version_Minor v = int (decimal ys)"
    "Version_Patch v = int (decimal zs)"
    using assms(4-6)
    by (simp_all add: Version_Major_def Version_Minor_def Version_Patch_def sv sint_of_nat63)
  with v show ?thesis by blast
qed

theorem NewVersion_XYZ_witness:
  "numeric_identifier ''1'' \<and> numeric_identifier ''2'' \<and> numeric_identifier ''3''
   \<and> decimal ''1'' = 1 \<and> decimal ''2'' = 2 \<and> decimal ''3'' = 3
   \<and> (\<exists>v. NewVersion semver_Make test_time_Parse Time_zero TestNewVersion_vconf = (v, None)
          \<and> Version_Major v = 1 \<and> Version_Minor v = 2 \<and> Version_Patch v = 3)"
proof -
  have n: "numeric_identifier ''1''" "numeric_identifier ''2''" "numeric_identifier ''3''"
    by (simp_all add: numeric_identifier_def containsOnly_def numbers_def hasLeadingZeroes_def)
  have d: "decimal ''1'' = 1" "decimal ''2'' = 2" "decimal ''3'' = 3"
    by (simp_all add: decimal_def)
  have b: "decimal ''1'' < 2 ^ 63" "decimal ''2'' < 2 ^ 63" "decimal ''3'' < 2 ^ 63"
    by (simp_all add: d)
  have s: "VersionString TestNewVersion_vconf = ''1'' @ ''.'' @ ''2'' @ ''.'' @ ''3''"
    by (simp add: TestNewVersion_vconf_def)
  have t: "test_time_Parse UnixDate (TStamp TestNewVersion_vconf) = Inr Time_of_tests"
    by (simp add: TestNewVersion_vconf_def test_time_Parse_ok)
  show ?thesis
    using NewVersion_XYZ [where tp = test_time_Parse and c = TestNewVersion_vconf and ?t0.0 = Time_zero,
        OF n b s t] n d by simp
qed

text \<open>
  The counterexample to claim C6 as written: \<^verbatim>\<open>9223372036854775808.0.0\<close> is built
  and \<^verbatim>\<open>Major()\<close> is \<open>-9223372036854775808\<close>; \<^verbatim>\<open>18446744073709551616.0.0\<close> is
  rejected with the range error of \<^verbatim>\<open>strconv.ParseUint\<close>.
\<close>

theorem NewVersion_XYZ_counterexample:
  "numeric_identifier ''9223372036854775808'' \<and> numeric_identifier ''0''
   \<and> decimal ''9223372036854775808'' = 9223372036854775808
   \<and> snd (NewVersion semver_Make test_time_Parse Time_zero
        (TestNewVersion_vconf\<lparr>VersionString := ''9223372036854775808.0.0''\<rparr>)) = None
   \<and> Version_Major (fst (NewVersion semver_Make test_time_Parse Time_zero
        (TestNewVersion_vconf\<lparr>VersionString := ''9223372036854775808.0.0''\<rparr>)))
       = - 9223372036854775808
   \<and> numeric_identifier ''18446744073709551616''
   \<and> NewVersion semver_Make test_time_Parse Time_zero
        (TestNewVersion_vconf\<lparr>VersionString := ''18446744073709551616.0.0''\<rparr>)
       = (Version_zero Time_zero, Some (NumError ''ParseUint'' ''18446744073709551616'' ErrRange))"
proof -
  have n: "numeric_identifier ''9223372036854775808'' \<and> numeric_identifier ''0''
      \<and> numeric_identifier ''18446744073709551616''"
    by (simp add: numeric_identifier_def containsOnly_def numbers_def hasLeadingZeroes_def)
  have d: "decimal ''9223372036854775808'' = 9223372036854775808"
    by (simp add: decimal_def)
  have a: "NewVersion semver_Make test_time_Parse Time_zero
        (TestNewVersion_vconf\<lparr>VersionString := ''9223372036854775808.0.0''\<rparr>) =
     (\<lparr>semver = \<lparr>Major = 9223372036854775808, Minor = 0, Patch = 0, Pre = [], Build = []\<rparr>,
       githash = ''1234567890abcdef'', gitbranch = ''testing'', gituser = ''Jane Doe'',
       os = ''linux'', arch = ''amd64'', compiler = ''go1.11.1'', release = ''prod'',
       timestamp = Time_of_tests, warnings = [], err = None\<rparr>, None)"
    by (simp add: NewVersion_def TestNewVersion_vconf_def semver_Make_2_63 test_time_Parse_ok
        Version_zero_def Let_def)
  have m: "Version_Major (fst (NewVersion semver_Make test_time_Parse Time_zero
        (TestNewVersion_vconf\<lparr>VersionString := ''9223372036854775808.0.0''\<rparr>)))
       = - 9223372036854775808"
    by (simp add: a Version_Major_def sint64)
  have f: "NewVersion semver_Make test_time_Parse Time_zero
        (TestNewVersion_vconf\<lparr>VersionString := ''18446744073709551616.0.0''\<rparr>)
       = (Version_zero Time_zero, Some (NumError ''ParseUint'' ''18446744073709551616'' ErrRange))"
    by (rule NewVersion_semver_error) (simp add: semver_Make_2_64)
  show ?thesis using n d m f by (simp add: a)
qed

text \<open>
  Claim C5, amended. With a timestamp that \<^verbatim>\<open>time.Parse\<close> accepts, the configuration with
  version \<^verbatim>\<open>"1.2.3-2-ga1b2c3d"\<close> and release tag \<^verbatim>\<open>"test"\<close> is built, \<^verbatim>\<open>Pre()\<close> returns
  \<^verbatim>\<open>"2-ga1b2c3d"\<close>, there are two warnings and the first one is
  \<^verbatim>\<open>This version is tagged as a pre-release "[2-ga1b2c3d]". Please don't use in production.\<close>
  In general, when the parsed version has pre-release identifiers, the first warning
  renders them between brackets and separated by single spaces (the claim says: by
  commas), each identifier as its \<^verbatim>\<open>String()\<close> method prints it.
\<close>

theorem pre_release_warning_rendering:
  assumes "tp UnixDate (TStamp c) = Inr t"
  shows "(VersionString c = ''1.2.3-2-ga1b2c3d'' \<and> Release c = ''test'' \<longrightarrow>
            (\<exists>v. NewVersion semver_Make tp t0 c = (v, None)
               \<and> Version_Pre v = Inr ''2-ga1b2c3d''
               \<and> length (Version_Warnings v) = 2
               \<and> Version_Warnings v ! 0 =
                    ''This version is tagged as a pre-release '' @ [CHR 0x22] @ ''[2-ga1b2c3d]''
                      @ [CHR 0x22] @ ''. Please don't use in production.''))
    \<and> (\<forall>v. NewVersion semver_Make tp t0 c = (v, None) \<and> Pre (semver v) \<noteq> [] \<longrightarrow>
            Version_Warnings v ! 0 =
              ''This version is tagged as a pre-release '' @ [CHR 0x22] @ ''[''
                @ tl (concat (map (\<lambda>p. CHR '' '' # PRVersion_String p) (Pre (semver v))))
                @ '']'' @ [CHR 0x22] @ ''. Please don't use in production.'')"
proof (intro conjI impI allI)
  assume a: "VersionString c = ''1.2.3-2-ga1b2c3d'' \<and> Release c = ''test''"
  let ?sv = "\<lparr>Major = 1, Minor = 2, Patch = 3,
          Pre = [\<lparr>VersionStr = ''2-ga1b2c3d'', VersionNum = 0, IsNum = False\<rparr>],
          Build = []\<rparr> :: semver_Version"
  have mk: "semver_Make (VersionString c) = Inr ?sv"
    using a by (simp add: semver_Make_pre)
  have "snd (NewVersion semver_Make tp t0 c) = None"
    using mk assms by (rule NewVersion_no_error)
  then obtain v where v: "NewVersion semver_Make tp t0 c = (v, None)"
    by (cases "NewVersion semver_Make tp t0 c") simp
  have "Version_Pre v = Inr ''2-ga1b2c3d'' \<and> length (Version_Warnings v) = 2
      \<and> Version_Warnings v ! 0 =
           ''This version is tagged as a pre-release '' @ [CHR 0x22] @ ''[2-ga1b2c3d]''
             @ [CHR 0x22] @ ''. Please don't use in production.''"
    using v mk a
    by (auto elim!: NewVersion_success
        simp add: Version_Pre_def Version_Warnings_def PRVersion_String_def
          pre_release_warning_def printValue_slice_def)
  with v show "\<exists>v. NewVersion semver_Make tp t0 c = (v, None)
               \<and> Version_Pre v = Inr ''2-ga1b2c3d''
               \<and> length (Version_Warnings v) = 2
               \<and> Version_Warnings v ! 0 =
                    ''This version is tagged as a pre-release '' @ [CHR 0x22] @ ''[2-ga1b2c3d]''
                      @ [CHR 0x22] @ ''. Please don't use in production.''"
    by (intro exI [of _ v]) simp
next
  fix v
  assume b: "NewVersion semver_Make tp t0 c = (v, None) \<and> Pre (semver v) \<noteq> []"
  then have "Version_Warnings v ! 0 = pre_release_warning (Pre (semver v))"
    by (elim conjE NewVersion_success) (simp add: Version_Warnings_def)
  then show "Version_Warnings v ! 0 =
              ''This version is tagged as a pre-release '' @ [CHR 0x22] @ ''[''
                @ tl (concat (map (\<lambda>p. CHR '' '' # PRVersion_String p) (Pre (semver v))))
                @ '']'' @ [CHR 0x22] @ ''. Please don't use in production.''"
    using b by (simp add: pre_release_warning_def printValue_slice_def printValue_elems_spaces)
qed

theorem pre_release_warning_rendering_witness:
  "(\<exists>v. NewVersion semver_Make test_time_Parse Time_zero TestVersionWarnings_vconf = (v, None)
       \<and> Version_Pre v = Inr ''2-ga1b2c3d''
       \<and> length (Version_Warnings v) = 2
       \<and> Version_Warnings v ! 0 =
            ''This version is tagged as a pre-release '' @ [CHR 0x22] @ ''[2-ga1b2c3d]''
              @ [CHR 0x22] @ ''. Please don't use in production.'')
   \<and> (\<exists>v. NewVersion semver_Make test_time_Parse Time_zero
              (TestNewVersion_vconf\<lparr>VersionString := ''1.2.3-alpha.1''\<rparr>) = (v, None)
       \<and> Pre (semver v) \<noteq> []
       \<and> Version_Warnings v ! 0 =
            ''This version is tagged as a pre-release '' @ [CHR 0x22] @ ''[alpha 1]''
              @ [CHR 0x22] @ ''. Please don't use in production.'')"
proof (rule conjI)
  have t: "test_time_Parse UnixDate (TStamp TestVersionWarnings_vconf) = Inr Time_of_tests"
    by (simp add: TestVersionWarnings_vconf_def test_time_Parse_ok)
  have s: "VersionString TestVersionWarnings_vconf = ''1.2.3-2-ga1b2c3d''
      \<and> Release TestVersionWarnings_vconf = ''test''"
    by (simp add: TestVersionWarnings_vconf_def)
  note th = pre_release_warning_rendering
    [where tp = test_time_Parse and c = TestVersionWarnings_vconf and ?t0.0 = Time_zero, OF t]
  show "\<exists>v. NewVersion semver_Make test_time_Parse Time_zero TestVersionWarnings_vconf = (v, None)
       \<and> Version_Pre v = Inr ''2-ga1b2c3d''
       \<and> length (Version_Warnings v) = 2
       \<and> Version_Warnings v ! 0 =
            ''This version is tagged as a pre-release '' @ [CHR 0x22] @ ''[2-ga1b2c3d]''
              @ [CHR 0x22] @ ''. Please don't use in production.''"
    by (rule mp [OF conjunct1 [OF th] s])
next
  let ?c = "TestNewVersion_vconf\<lparr>VersionString := ''1.2.3-alpha.1''\<rparr>"
  have t': "test_time_Parse UnixDate (TStamp ?c) = Inr Time_of_tests"
    by (simp add: TestNewVersion_vconf_def test_time_Parse_ok)
  note th = pre_release_warning_rendering
    [where tp = test_time_Parse and c = ?c and ?t0.0 = Time_zero, OF t']
  obtain v where v: "NewVersion semver_Make test_time_Parse Time_zero ?c = (v, None)"
    and p: "Pre (semver v) = [\<lparr>VersionStr = ''alpha'', VersionNum = 0, IsNum = False\<rparr>,
                 \<lparr>VersionStr = [], VersionNum = 1, IsNum = True\<rparr>]"
    using NewVersion_alpha_1 by simp
  have ne: "Pre (semver v) \<noteq> []" by (simp add: p)
  have "Version_Warnings v ! 0 =
              ''This version is tagged as a pre-release '' @ [CHR 0x22] @ ''[''
                @ tl (concat (map (\<lambda>p. CHR '' '' # PRVersion_String p) (Pre (semver v))))
                @ '']'' @ [CHR 0x22] @ ''. Please don't use in production.''"
    by (rule mp [OF spec [OF conjunct2 [OF th]] conjI [OF v ne]])
  then have w: "Version_Warnings v ! 0 =
            ''This version is tagged as a pre-release '' @ [CHR 0x22] @ ''[alpha 1]''
              @ [CHR 0x22] @ ''. Please don't use in production.''"
    by (simp add: p PRVersion_String_def FormatUint_1)
  show "\<exists>v. NewVersion semver_Make test_time_Parse Time_zero ?c = (v, None)
       \<and> Pre (semver v) \<noteq> []
       \<and> Version_Warnings v ! 0 =
            ''This version is tagged as a pre-release '' @ [CHR 0x22] @ ''[alpha 1]''
              @ [CHR 0x22] @ ''. Please don't use in production.''"
    by (rule exI [of _ v]) (rule conjI [OF v conjI [OF ne w]])
qed

text \<open>
  The counterexample to claim C5 as written: for the version \<^verbatim>\<open>"1.2.3-alpha.1"\<close>, which
  has two pre-release identifiers, the warning renders them as \<^verbatim>\<open>[alpha 1]\<close>, and
  there is no comma in the warning.
\<close>

theorem pre_release_warning_rendering_counterexample:
  "Version_Warnings (fst (NewVersion semver_Make test_time_Parse Time_zero
       (TestNewVersion_vconf\<lparr>VersionString := ''1.2.3-alpha.1''\<rparr>))) =
     [''This version is tagged as a pre-release '' @ [CHR 0x22] @ ''[alpha 1]''
        @ [CHR 0x22] @ ''. Please don't use in production.'']
   \<and> length (Pre (semver (fst (NewVersion semver_Make test_time_Parse Time_zero
       (TestNewVersion_vconf\<lparr>VersionString := ''1.2.3-alpha.1''\<rparr>))))) = 2
   \<and> CHR '','' \<notin> set (Version_Warnings (fst (NewVersion semver_Make test_time_Parse Time_zero
       (TestNewVersion_vconf\<lparr>VersionString := ''1.2.3-alpha.1''\<rparr>))) ! 0)"
  by (simp add: NewVersion_alpha_1 Version_Warnings_def)

end
